theory Spec2Isabelle
  imports Complex_Main
begin

section \<open>The openai-cli command dispatcher (cmd/openai-cli/main.go)\<close>

text \<open>
  The program is a cobra command tree with seven subcommands. Each handler resolves an API
  key, builds one request, calls the remote API through the client library, and prints or
  writes the result. The model below follows main.go function by function.

  What is outside main.go is a parameter of the model:
  \<^item> the client library and the remote service (\<open>CreateCompletion\<close>, \<open>CreateImage\<close>,
    \<open>CreateEditImage\<close>, \<open>CreateTranscription\<close>), as functions from the key and the request
    to an error or a response; each method sends one request per call, and what
    \<open>CreateTranscription\<close> does before it sends is modelled from the specification;
  \<^item> the Go standard library codecs used by \<open>strToImageBytes\<close> and \<open>imageRecognition\<close>
    (\<open>json.Unmarshal\<close> into the one-field struct, \<open>base64.StdEncoding\<close>, \<open>image.Decode\<close>,
    \<open>png.Encode\<close>);
  \<^item> the parsed value of the persistent flag \<open>--key\<close> and the positional arguments, as
    cobra hands them to the handler.

  Effects are explicit: a \<open>world\<close> holds the file system, the environment, both console
  streams and the trace of requests sent to the remote API. A Go \<open>string\<close> and a
  \<open>[]byte\<close> are both byte sequences, here \<open>char list\<close>. An \<open>error\<close> is the text that
  \<open>err.Error()\<close> returns. The date and time prefix that package \<open>log\<close> puts before a
  message is left out of \<open>stderr\<close>, which lists the messages.
\<close>

subsection \<open>Data\<close>

type_synonym error = string
type_synonym path = string
type_synonym bytes = string

record CompletionRequest =
  creq_Model :: string
  creq_Prompt :: string
  creq_MaxTokens :: int
  creq_Temperature :: rat
  creq_N :: int

record ImageRequest =
  ireq_Prompt :: string
  ireq_N :: int
  ireq_Size :: string
  ireq_ResponseFormat :: string
  ireq_User :: string

text \<open>\<open>ereq_Image\<close> is the content of the file behind the open handle passed as \<open>Image\<close>.\<close>

record ImageEditRequest =
  ereq_Image :: bytes
  ereq_Prompt :: string
  ereq_N :: int
  ereq_Size :: string

record AudioRequest =
  areq_Model :: string
  areq_FilePath :: path
  areq_Prompt :: string
  areq_Temperature :: rat
  areq_Language :: string

datatype request =
    Completion CompletionRequest
  | Image ImageRequest
  | ImageEdit ImageEditRequest
  | Audio AudioRequest

text \<open>Of each response only the fields main.go reads are kept.\<close>

datatype CompletionChoice = CompletionChoice (choice_Text: string)
datatype CompletionResponse = CompletionResponse (Choices: "CompletionChoice list")
datatype ImageResponseDataInner = ImageResponseDataInner (B64JSON: string)
datatype ImageResponse = ImageResponse (Data: "ImageResponseDataInner list")
datatype AudioResponse = AudioResponse (audio_Text: string)

text \<open>
  The parameters of the model. \<open>json_Unmarshal_Data s\<close> is the \<open>Data\<close> field of a zero
  \<open>ImageData\<close> after \<open>json.Unmarshal([]byte(s), &imageData)\<close>, or the error it returns.
  \<open>CreateTranscription key req audio\<close> is the answer to a transcription request that
  carries the content \<open>audio\<close> of the file named in \<open>req\<close>, and \<open>audio_open_error e\<close> is the
  error the client library returns when opening that file fails with \<open>e\<close>.
\<close>

record 'img sys =
  json_Unmarshal_Data :: "string \<Rightarrow> error + string"
  base64_DecodeString :: "string \<Rightarrow> error + bytes"
  base64_EncodeToString :: "bytes \<Rightarrow> string"
  image_Decode :: "bytes \<Rightarrow> error + 'img"
  png_Encode :: "'img \<Rightarrow> error + bytes"
  CreateCompletion :: "string \<Rightarrow> CompletionRequest \<Rightarrow> error + CompletionResponse"
  CreateImage :: "string \<Rightarrow> ImageRequest \<Rightarrow> error + ImageResponse"
  CreateEditImage :: "string \<Rightarrow> ImageEditRequest \<Rightarrow> error + ImageResponse"
  CreateTranscription :: "string \<Rightarrow> AudioRequest \<Rightarrow> bytes \<Rightarrow> error + AudioResponse"
  audio_open_error :: "error \<Rightarrow> error"

text \<open>
  \<open>write_denied w p = Some e\<close> says that the operating system refuses to create or truncate
  \<open>p\<close>, with error \<open>e\<close>; a write that is not refused replaces the content of the file.
  Reading a path that holds no file fails. \<open>getenv w n\<close> is \<open>os.Getenv(n)\<close>, empty for an
  unset variable. \<open>requests\<close> lists, oldest first, each request that the client library
  sends, with the key of the client.
\<close>

record world =
  files :: "path \<rightharpoonup> bytes"
  write_denied :: "path \<rightharpoonup> error"
  getenv :: "string \<Rightarrow> string"
  stdout :: string
  stderr :: "string list"
  requests :: "(string \<times> request) list"

text \<open>
  How a run ends: the handler returns and the process exits with status 0; \<open>log.Fatal\<close> exits
  with status 1; an index out of range is a runtime panic, \<open>IndexOutOfRange i n\<close> for index
  \<open>i\<close> into a slice of length \<open>n\<close>.
\<close>

datatype outcome = Returned | Exit1 | IndexOutOfRange nat nat

datatype subcommand =
    Dialogue | ImageRecognition | ImageGeneration | ImageEditing
  | AudioGeneration | AudioTranscription | CodeGeneration

subsection \<open>Library calls with an effect\<close>

definition log_Fatal :: "string \<Rightarrow> world \<Rightarrow> outcome \<times> world" where
  "log_Fatal msg w = (Exit1, w\<lparr>stderr := stderr w @ [msg]\<rparr>)"

definition fmt_Print :: "string \<Rightarrow> world \<Rightarrow> world" where
  "fmt_Print s w = w\<lparr>stdout := stdout w @ s\<rparr>"

definition fmt_Println :: "string \<Rightarrow> world \<Rightarrow> world" where
  "fmt_Println s w = fmt_Print (s @ [CHR 0x0A]) w"

definition ioutil_ReadFile :: "path \<Rightarrow> world \<Rightarrow> error + bytes" where
  "ioutil_ReadFile p w =
     (case files w p of
        None \<Rightarrow> Inl (''open '' @ p @ '': no such file or directory'')
      | Some d \<Rightarrow> Inr d)"

definition os_Open :: "path \<Rightarrow> world \<Rightarrow> error + bytes" where
  "os_Open p w = ioutil_ReadFile p w"

definition ioutil_WriteFile :: "path \<Rightarrow> bytes \<Rightarrow> world \<Rightarrow> error option \<times> world" where
  "ioutil_WriteFile p d w =
     (case write_denied w p of
        Some e \<Rightarrow> (Some e, w)
      | None \<Rightarrow> (None, w\<lparr>files := (files w)(p \<mapsto> d)\<rparr>))"

definition send :: "string \<Rightarrow> request \<Rightarrow> world \<Rightarrow> world" where
  "send key r w = w\<lparr>requests := requests w @ [(key, r)]\<rparr>"

definition index :: "'a list \<Rightarrow> nat \<Rightarrow> 'a option" where
  "index xs i = (if i < length xs then Some (xs ! i) else None)"

text \<open>Constants of the client library that main.go names.\<close>

definition CreateImageSize256x256 :: string where
  "CreateImageSize256x256 = ''256x256''"

definition CreateImageResponseFormatB64JSON :: string where
  "CreateImageResponseFormatB64JSON = ''b64_json''"

subsection \<open>getClient and strToImageBytes\<close>

definition key_not_found :: string where
  "key_not_found =
     ''OpenAI API key not found. Set it using --key or OPENAI_API_KEY environment variable''"

definition getClient :: "string \<Rightarrow> world \<Rightarrow> string + string" where
  "getClient openaiKey w =
     (let key = openaiKey;
          key = (if key = [] then getenv w ''OPENAI_API_KEY'' else key)
      in if key = [] then Inl key_not_found else Inr key)"

definition strToImageBytes :: "'img sys \<Rightarrow> string \<Rightarrow> error + bytes" where
  "strToImageBytes S input =
     (case json_Unmarshal_Data S input of
        Inl err \<Rightarrow> Inl err
      | Inr imageData \<Rightarrow>
          (case base64_DecodeString S imageData of
             Inl err \<Rightarrow> Inl err
           | Inr decoded \<Rightarrow>
               (case image_Decode S decoded of
                  Inl err \<Rightarrow> Inl err
                | Inr img \<Rightarrow>
                    (case png_Encode S img of
                       Inl err \<Rightarrow> Inl err
                     | Inr buf \<Rightarrow> Inr buf))))"

subsection \<open>The handlers\<close>

definition dialogue :: "'img sys \<Rightarrow> string \<Rightarrow> string list \<Rightarrow> world \<Rightarrow> outcome \<times> world" where
  "dialogue S openaiKey args w =
     (case getClient openaiKey w of
        Inl msg \<Rightarrow> log_Fatal msg w
      | Inr client \<Rightarrow>
          (case index args 0 of
             None \<Rightarrow> (IndexOutOfRange 0 (length args), w)
           | Some prompt \<Rightarrow>
               (let req = \<lparr>creq_Model = ''text-davinci-003'', creq_Prompt = prompt,
                           creq_MaxTokens = 5000, creq_Temperature = 0, creq_N = 0\<rparr>;
                    w1 = send client (Completion req) w
                in case CreateCompletion S client req of
                     Inl err \<Rightarrow> log_Fatal err w1
                   | Inr completion \<Rightarrow>
                       (Returned,
                        fold (\<lambda>choice. fmt_Println (choice_Text choice))
                          (Choices completion) w1))))"

definition describe_prefix :: string where
  "describe_prefix =
     [CHR 0xE6, CHR 0x8F, CHR 0x8F, CHR 0xE8, CHR 0xBF, CHR 0xB0, CHR 0xE8, CHR 0xBF, CHR 0x99,
      CHR 0xE4, CHR 0xB8, CHR 0xAA, CHR 0xE5, CHR 0x9B, CHR 0xBE, CHR 0xE7, CHR 0x89, CHR 0x87]
     @ '': ''"

definition imageRecognition ::
  "'img sys \<Rightarrow> string \<Rightarrow> string list \<Rightarrow> world \<Rightarrow> outcome \<times> world" where
  "imageRecognition S openaiKey args w =
     (case getClient openaiKey w of
        Inl msg \<Rightarrow> log_Fatal msg w
      | Inr client \<Rightarrow>
          (case index args 0 of
             None \<Rightarrow> (IndexOutOfRange 0 (length args), w)
           | Some filename \<Rightarrow>
               (case ioutil_ReadFile filename w of
                  Inl err \<Rightarrow> log_Fatal err w
                | Inr data \<Rightarrow>
                    (let imageBase64 = base64_EncodeToString S data;
                         imageRecogRequest =
                           \<lparr>creq_Model = ''image-alpha-001'',
                            creq_Prompt = describe_prefix @ imageBase64,
                            creq_MaxTokens = 50, creq_Temperature = 1 / 2, creq_N = 1\<rparr>;
                         w1 = send client (Completion imageRecogRequest) w
                     in case CreateCompletion S client imageRecogRequest of
                          Inl err \<Rightarrow> log_Fatal err w1
                        | Inr result \<Rightarrow>
                            (case index (Choices result) 0 of
                               None \<Rightarrow> (IndexOutOfRange 0 (length (Choices result)), w1)
                             | Some choice \<Rightarrow>
                                 (Returned, fmt_Println (choice_Text choice) w1))))))"

definition imageGeneration ::
  "'img sys \<Rightarrow> string \<Rightarrow> string list \<Rightarrow> world \<Rightarrow> outcome \<times> world" where
  "imageGeneration S openaiKey args w =
     (case getClient openaiKey w of
        Inl msg \<Rightarrow> log_Fatal msg w
      | Inr client \<Rightarrow>
          (case index args 0 of
             None \<Rightarrow> (IndexOutOfRange 0 (length args), w)
           | Some prompt \<Rightarrow>
               (let req = \<lparr>ireq_Prompt = prompt, ireq_N = 1, ireq_Size = CreateImageSize256x256,
                           ireq_ResponseFormat = CreateImageResponseFormatB64JSON,
                           ireq_User = ''Developer''\<rparr>;
                    w1 = send client (Image req) w
                in case CreateImage S client req of
                     Inl err \<Rightarrow> log_Fatal ''no result, no image data'' w1
                   | Inr result \<Rightarrow>
                       (if length (Data result) = 0 then log_Fatal [] w1
                        else
                          (case strToImageBytes S (B64JSON (Data result ! 0)) of
                             Inl err \<Rightarrow> log_Fatal err w1
                           | Inr imageBytes \<Rightarrow>
                               (case ioutil_WriteFile ''output.png'' imageBytes w1 of
                                  (Some err, w2) \<Rightarrow> log_Fatal err w2
                                | (None, w2) \<Rightarrow>
                                    (Returned,
                                     fmt_Println ''Image saved to output.png'' w2)))))))"

definition imageEditing ::
  "'img sys \<Rightarrow> string \<Rightarrow> string list \<Rightarrow> world \<Rightarrow> outcome \<times> world" where
  "imageEditing S openaiKey args w =
     (case getClient openaiKey w of
        Inl msg \<Rightarrow> log_Fatal msg w
      | Inr client \<Rightarrow>
          (case index args 0 of
             None \<Rightarrow> (IndexOutOfRange 0 (length args), w)
           | Some inputFile \<Rightarrow>
          (case index args 1 of
             None \<Rightarrow> (IndexOutOfRange 1 (length args), w)
           | Some instructions \<Rightarrow>
          (case index args 2 of
             None \<Rightarrow> (IndexOutOfRange 2 (length args), w)
           | Some outputFile \<Rightarrow>
               (case os_Open inputFile w of
                  Inl err \<Rightarrow> log_Fatal err w
                | Inr inputData \<Rightarrow>
                    (let req = \<lparr>ereq_Image = inputData, ereq_Prompt = instructions,
                                ereq_N = 1, ereq_Size = CreateImageSize256x256\<rparr>;
                         w1 = send client (ImageEdit req) w
                     in case CreateEditImage S client req of
                          Inl err \<Rightarrow> log_Fatal err w1
                        | Inr result \<Rightarrow>
                            (if length (Data result) = 0
                             then log_Fatal ''no result, no image edited'' w1
                             else
                               (case strToImageBytes S (B64JSON (Data result ! 0)) of
                                  Inl err \<Rightarrow> log_Fatal err w1
                                | Inr ret \<Rightarrow>
                                    (case ioutil_WriteFile outputFile ret w1 of
                                       (Some err, w2) \<Rightarrow> log_Fatal err w2
                                     | (None, w2) \<Rightarrow>
                                         (Returned,
                                          fmt_Print (''Image saved to '' @ outputFile
                                                     @ [CHR 0x0A]) w2))))))))))"

definition audioGeneration ::
  "'img sys \<Rightarrow> string \<Rightarrow> string list \<Rightarrow> world \<Rightarrow> outcome \<times> world" where
  "audioGeneration S openaiKey args w =
     (case getClient openaiKey w of
        Inl msg \<Rightarrow> log_Fatal msg w
      | Inr client \<Rightarrow>
          (case index args 0 of
             None \<Rightarrow> (IndexOutOfRange 0 (length args), w)
           | Some text \<Rightarrow>
          (case index args 1 of
             None \<Rightarrow> (IndexOutOfRange 1 (length args), w)
           | Some outputFile \<Rightarrow>
               (let req = \<lparr>creq_Model = ''whisper-3'', creq_Prompt = text,
                           creq_MaxTokens = 1024, creq_Temperature = 1 / 2, creq_N = 1\<rparr>;
                    w1 = send client (Completion req) w
                in case CreateCompletion S client req of
                     Inl err \<Rightarrow> log_Fatal err w1
                   | Inr result \<Rightarrow>
                       (case index (Choices result) 0 of
                          None \<Rightarrow> (IndexOutOfRange 0 (length (Choices result)), w1)
                        | Some choice \<Rightarrow>
                            (case ioutil_WriteFile outputFile (choice_Text choice) w1 of
                               (Some err, w2) \<Rightarrow> log_Fatal err w2
                             | (None, w2) \<Rightarrow>
                                 (Returned,
                                  fmt_Print (''Audio saved to '' @ outputFile
                                             @ [CHR 0x0A]) w2)))))))"

definition transcription_prompt :: string where
  "transcription_prompt =
     [CHR 0xE7, CHR 0x94, CHR 0xA8, CHR 0xE7, CHR 0xAE, CHR 0x80, CHR 0xE4, CHR 0xBD, CHR 0x93,
      CHR 0xE4, CHR 0xB8, CHR 0xAD, CHR 0xE6, CHR 0x96, CHR 0x87]"

text \<open>
  Modelled from the spec: the method \<open>CreateTranscription\<close> of the client library, which
  \<open>audioTranscription\<close> calls with a file name and which is not part of main.go. By the
  specification the program forwards the user-supplied audio input to the remote API, in
  one request/response round trip: the method opens the file named by \<open>FilePath\<close> and sends
  its content in one request. A file that cannot be opened cannot be forwarded: the method
  then returns an error and sends nothing.
\<close>

definition client_CreateTranscription ::
  "'img sys \<Rightarrow> string \<Rightarrow> AudioRequest \<Rightarrow> world \<Rightarrow> (error + AudioResponse) \<times> world" where
  "client_CreateTranscription S key req w =
     (case os_Open (areq_FilePath req) w of
        Inl err \<Rightarrow> (Inl (audio_open_error S err), w)
      | Inr audio \<Rightarrow> (CreateTranscription S key req audio, send key (Audio req) w))"

definition audioTranscription ::
  "'img sys \<Rightarrow> string \<Rightarrow> string list \<Rightarrow> world \<Rightarrow> outcome \<times> world" where
  "audioTranscription S openaiKey args w =
     (case getClient openaiKey w of
        Inl msg \<Rightarrow> log_Fatal msg w
      | Inr client \<Rightarrow>
          (case index args 0 of
             None \<Rightarrow> (IndexOutOfRange 0 (length args), w)
           | Some filename \<Rightarrow>
               (let req = \<lparr>areq_Model = ''whisper-3'', areq_FilePath = filename,
                           areq_Prompt = transcription_prompt, areq_Temperature = 1 / 2,
                           areq_Language = ''zh''\<rparr>
                in case client_CreateTranscription S client req w of
                     (Inl err, w1) \<Rightarrow> log_Fatal err w1
                   | (Inr result, w1) \<Rightarrow> (Returned, fmt_Println (audio_Text result) w1))))"

definition codeGeneration ::
  "'img sys \<Rightarrow> string \<Rightarrow> string list \<Rightarrow> world \<Rightarrow> outcome \<times> world" where
  "codeGeneration S openaiKey args w =
     (case getClient openaiKey w of
        Inl msg \<Rightarrow> log_Fatal msg w
      | Inr client \<Rightarrow>
          (case index args 0 of
             None \<Rightarrow> (IndexOutOfRange 0 (length args), w)
           | Some prompt \<Rightarrow>
               (let req = \<lparr>creq_Model = ''davinci-codex-002'', creq_Prompt = prompt,
                           creq_MaxTokens = 5000, creq_Temperature = 1 / 2, creq_N = 1\<rparr>;
                    w1 = send client (Completion req) w
                in case CreateCompletion S client req of
                     Inl err \<Rightarrow> log_Fatal err w1
                   | Inr result \<Rightarrow>
                       (case index (Choices result) 0 of
                          None \<Rightarrow> (IndexOutOfRange 0 (length (Choices result)), w1)
                        | Some choice \<Rightarrow>
                            (Returned, fmt_Println (choice_Text choice) w1)))))"

subsection \<open>main: the command table and the dispatch\<close>

text \<open>
  \<open>Args c\<close> is the argument constraint registered for the command: \<open>Some n\<close> for
  \<open>cobra.ExactArgs(n)\<close>, \<open>None\<close> where the command sets no \<open>Args\<close> field; cobra then
  accepts any number of arguments for a subcommand.
\<close>

fun Args :: "subcommand \<Rightarrow> nat option" where
  "Args Dialogue = None"
| "Args ImageRecognition = Some 1"
| "Args ImageGeneration = Some 1"
| "Args ImageEditing = Some 3"
| "Args AudioGeneration = Some 2"
| "Args AudioTranscription = Some 1"
| "Args CodeGeneration = Some 1"

fun Run ::
  "subcommand \<Rightarrow> 'img sys \<Rightarrow> string \<Rightarrow> string list \<Rightarrow> world \<Rightarrow> outcome \<times> world" where
  "Run Dialogue = dialogue"
| "Run ImageRecognition = imageRecognition"
| "Run ImageGeneration = imageGeneration"
| "Run ImageEditing = imageEditing"
| "Run AudioGeneration = audioGeneration"
| "Run AudioTranscription = audioTranscription"
| "Run CodeGeneration = codeGeneration"

fun decimal :: "nat \<Rightarrow> string" where
  "decimal n =
     (if n < 10 then [char_of (48 + n)]
      else decimal (n div 10) @ [char_of (48 + n mod 10)])"

declare decimal.simps [simp del]

text \<open>The error of \<open>cobra.ExactArgs(n)\<close> for \<open>m\<close> arguments.\<close>

definition ExactArgs_error :: "nat \<Rightarrow> nat \<Rightarrow> error" where
  "ExactArgs_error n m = ''accepts '' @ decimal n @ '' arg(s), received '' @ decimal m"

text \<open>
  \<open>main c openaiKey args\<close> is \<open>rootCmd.Execute()\<close> for the command line that selects
  subcommand \<open>c\<close> with flag value \<open>openaiKey\<close> and positional arguments \<open>args\<close>. A violated
  argument constraint makes \<open>Execute\<close> return the error before the handler runs, and
  \<open>main\<close> passes it to \<open>log.Fatal\<close>. The usage text that cobra itself prints is not part of
  \<open>stderr\<close> here.
\<close>

definition main ::
  "'img sys \<Rightarrow> subcommand \<Rightarrow> string \<Rightarrow> string list \<Rightarrow> world \<Rightarrow> outcome \<times> world" where
  "main S c openaiKey args w =
     (case Args c of
        None \<Rightarrow> Run c S openaiKey args w
      | Some n \<Rightarrow>
          (if length args \<noteq> n then log_Fatal (ExactArgs_error n (length args)) w
           else Run c S openaiKey args w))"

subsection \<open>Vocabulary of the properties\<close>

text \<open>
  The transformation as the specification words it: base64-decode the payload, then
  re-encode the decoded image as PNG. It is compared with \<open>strToImageBytes\<close> below.
\<close>

definition decode_and_reencode :: "'img sys \<Rightarrow> string \<Rightarrow> error + bytes" where
  "decode_and_reencode S payload =
     (case base64_DecodeString S payload of
        Inl err \<Rightarrow> Inl err
      | Inr decoded \<Rightarrow>
          (case image_Decode S decoded of
             Inl err \<Rightarrow> Inl err
           | Inr img \<Rightarrow> png_Encode S img))"

text \<open>
  The file a subcommand is to write, and the file it names as input. Image generation
  writes the fixed name; image editing and audio generation take the path from the
  arguments. Audio transcription hands its file name to the client library.
\<close>

fun output_file :: "subcommand \<Rightarrow> string list \<Rightarrow> path option" where
  "output_file ImageGeneration args = Some ''output.png''"
| "output_file ImageEditing args = index args 2"
| "output_file AudioGeneration args = index args 1"
| "output_file c args = None"

fun input_file :: "subcommand \<Rightarrow> string list \<Rightarrow> path option" where
  "input_file ImageRecognition args = index args 0"
| "input_file ImageEditing args = index args 0"
| "input_file AudioTranscription args = index args 0"
| "input_file c args = None"

text \<open>The argument constraint of the command holds.\<close>

definition valid_args :: "subcommand \<Rightarrow> string list \<Rightarrow> bool" where
  "valid_args c args = (case Args c of None \<Rightarrow> True | Some n \<Rightarrow> length args = n)"

text \<open>What a run added to the request trace and to the two console streams.\<close>

definition issued :: "world \<Rightarrow> world \<Rightarrow> (string \<times> request) list" where
  "issued w w' = drop (length (requests w)) (requests w')"

definition printed :: "world \<Rightarrow> world \<Rightarrow> string" where
  "printed w w' = drop (length (stdout w)) (stdout w')"

definition logged :: "world \<Rightarrow> world \<Rightarrow> string list" where
  "logged w w' = drop (length (stderr w)) (stderr w')"

text \<open>
  The steps between key resolution and the sending of the request succeed: dialogue
  reads its first argument, image recognition and image editing read the input file, and
  for audio transcription the client library opens the audio file.
\<close>

fun reaches_call :: "subcommand \<Rightarrow> string list \<Rightarrow> world \<Rightarrow> bool" where
  "reaches_call Dialogue args w = (args \<noteq> [])"
| "reaches_call ImageRecognition args w =
     (case index args 0 of None \<Rightarrow> False | Some p \<Rightarrow> files w p \<noteq> None)"
| "reaches_call ImageEditing args w =
     (case index args 0 of None \<Rightarrow> False | Some p \<Rightarrow> files w p \<noteq> None)"
| "reaches_call AudioTranscription args w =
     (case index args 0 of None \<Rightarrow> False | Some p \<Rightarrow> files w p \<noteq> None)"
| "reaches_call c args w = True"

text \<open>
  The answer of the image service to a request of the trace; a request of another kind
  has none.
\<close>

fun image_answer :: "'img sys \<Rightarrow> string \<Rightarrow> request \<Rightarrow> (error + ImageResponse) option" where
  "image_answer S key (Image req) = Some (CreateImage S key req)"
| "image_answer S key (ImageEdit req) = Some (CreateEditImage S key req)"
| "image_answer S key r = None"

text \<open>
  Two worlds give a subcommand the same inputs when they agree on the key variable, on the
  content of the named input file and on whether the output file may be written.
\<close>

definition same_inputs :: "subcommand \<Rightarrow> string list \<Rightarrow> world \<Rightarrow> world \<Rightarrow> bool" where
  "same_inputs c args v w =
     (getenv v ''OPENAI_API_KEY'' = getenv w ''OPENAI_API_KEY'' \<and>
      (case input_file c args of None \<Rightarrow> True | Some p \<Rightarrow> files v p = files w p) \<and>
      (case output_file c args of None \<Rightarrow> True
       | Some p \<Rightarrow> write_denied v p = write_denied w p))"

text \<open>
  Two runs are indistinguishable from outside: same way of ending, same text printed, same
  messages logged, same requests issued.
\<close>

definition same_result :: "world \<Rightarrow> outcome \<times> world \<Rightarrow> world \<Rightarrow> outcome \<times> world \<Rightarrow> bool" where
  "same_result v rv w rw =
     (fst rv = fst rw \<and> printed v (snd rv) = printed w (snd rw) \<and>
      logged v (snd rv) = logged w (snd rw) \<and> issued v (snd rv) = issued w (snd rw))"

subsection \<open>A sample environment\<close>

text \<open>
  A small environment on which the model is evaluated. It stands in for the Go library
  on the texts used below and is not the library. Base64 is the standard alphabet with
  padding. The JSON reader covers two kinds of text, on which it answers as
  \<open>json.Unmarshal\<close> does: the one-member object text \<open>{"data":"..."}\<close> whose value is
  printable ASCII without quote and backslash, which yields the value; and a text whose
  first byte is printable and can begin no JSON value, which yields the syntax error that
  names this byte. Any other text is outside the reader. The image codec is a stand-in
  that does not compress: data that starts with the eight-byte PNG signature decodes to
  the bytes after it, and encoding puts the signature back, so the bytes it returns are
  not those of \<open>png.Encode\<close>. The service answers every call with the error
  \<open>status code: 401\<close>.
\<close>

fun b64val :: "char \<Rightarrow> nat option" where
  "b64val c =
     (let n = (of_char c :: nat)
      in if 65 \<le> n \<and> n \<le> 90 then Some (n - 65)
         else if 97 \<le> n \<and> n \<le> 122 then Some (n - 71)
         else if 48 \<le> n \<and> n \<le> 57 then Some (n + 4)
         else if n = 43 then Some 62
         else if n = 47 then Some 63
         else None)"

fun std_decode :: "string \<Rightarrow> bytes option" where
  "std_decode (a # b # c # d # rest) =
     (if rest = [] \<and> c = CHR ''='' \<and> d = CHR ''='' then
        (case (b64val a, b64val b) of
           (Some x, Some y) \<Rightarrow> Some [char_of (x * 4 + y div 16)]
         | _ \<Rightarrow> None)
      else if rest = [] \<and> d = CHR ''='' then
        (case (b64val a, b64val b, b64val c) of
           (Some x, Some y, Some z) \<Rightarrow>
             Some [char_of (x * 4 + y div 16), char_of (y mod 16 * 16 + z div 4)]
         | _ \<Rightarrow> None)
      else
        (case (b64val a, b64val b, b64val c, b64val d) of
           (Some x, Some y, Some z, Some u) \<Rightarrow>
             (case std_decode rest of
                Some bs \<Rightarrow>
                  Some (char_of (x * 4 + y div 16) # char_of (y mod 16 * 16 + z div 4)
                        # char_of (z mod 4 * 64 + u) # bs)
              | None \<Rightarrow> None)
         | _ \<Rightarrow> None))"
| "std_decode [] = Some []"
| "std_decode _ = None"

definition b64chr :: "nat \<Rightarrow> char" where
  "b64chr n =
     ''ABCDEFGHIJKLMNOPQRSTUVWXYZabcdefghijklmnopqrstuvwxyz0123456789+/'' ! n"

fun std_encode :: "bytes \<Rightarrow> string" where
  "std_encode (a # b # c # rest) =
     (let x = (of_char a :: nat); y = (of_char b :: nat); z = (of_char c :: nat)
      in b64chr (x div 4) # b64chr (x mod 4 * 16 + y div 16)
         # b64chr (y mod 16 * 4 + z div 64) # b64chr (z mod 64) # std_encode rest)"
| "std_encode [a, b] =
     (let x = (of_char a :: nat); y = (of_char b :: nat)
      in [b64chr (x div 4), b64chr (x mod 4 * 16 + y div 16), b64chr (y mod 16 * 4),
          CHR ''=''])"
| "std_encode [a] =
     (let x = (of_char a :: nat)
      in [b64chr (x div 4), b64chr (x mod 4 * 16), CHR ''='', CHR ''=''])"
| "std_encode [] = []"

definition data_open :: string where
  "data_open = ''{'' @ [CHR 0x22] @ ''data'' @ [CHR 0x22] @ '':'' @ [CHR 0x22]"

definition data_close :: string where
  "data_close = [CHR 0x22] @ ''}''"

definition plain :: "char \<Rightarrow> bool" where
  "plain c = (let n = (of_char c :: nat) in 32 \<le> n \<and> n < 127 \<and> n \<noteq> 34 \<and> n \<noteq> 92)"

definition begins_no_value :: "char \<Rightarrow> bool" where
  "begins_no_value c =
     (let n = (of_char c :: nat)
      in 32 < n \<and> n < 127 \<and> n \<noteq> 34 \<and> n \<noteq> 39 \<and> n \<noteq> 92
         \<and> c \<notin> set ''{[-0123456789tfn'')"

definition no_value_error :: "char \<Rightarrow> error" where
  "no_value_error c =
     ''invalid character '' @ [CHR 0x27, c, CHR 0x27] @ '' looking for beginning of value''"

definition read_data_member :: "string \<Rightarrow> error + string" where
  "read_data_member s =
     (let n = length s; v = take (n - 11) (drop 9 s)
      in if 11 \<le> n \<and> take 9 s = data_open \<and> drop (n - 2) s = data_close
            \<and> list_all plain v
         then Inr v
         else (case s of
                 [] \<Rightarrow> Inl ''unexpected end of JSON input''
               | c # cs \<Rightarrow>
                   if begins_no_value c then Inl (no_value_error c)
                   else Inl ''text outside the sample reader''))"

definition png_signature :: bytes where
  "png_signature =
     [CHR 0x89, CHR 0x50, CHR 0x4E, CHR 0x47, CHR 0x0D, CHR 0x0A, CHR 0x1A, CHR 0x0A]"

definition sample_sys :: "bytes sys" where
  "sample_sys =
     \<lparr>json_Unmarshal_Data = read_data_member,
      base64_DecodeString =
        (\<lambda>s. case std_decode s of
               None \<Rightarrow> Inl ''illegal base64 data''
             | Some bs \<Rightarrow> Inr bs),
      base64_EncodeToString = std_encode,
      image_Decode =
        (\<lambda>bs. if take 8 bs = png_signature then Inr (drop 8 bs)
              else Inl ''image: unknown format''),
      png_Encode = (\<lambda>img. Inr (png_signature @ img)),
      CreateCompletion = (\<lambda>key req. Inl ''status code: 401''),
      CreateImage = (\<lambda>key req. Inl ''status code: 401''),
      CreateEditImage = (\<lambda>key req. Inl ''status code: 401''),
      CreateTranscription = (\<lambda>key req audio. Inl ''status code: 401''),
      audio_open_error = (\<lambda>err. ''opening audio file: '' @ err)\<rparr>"

text \<open>The base64 text of a one-pixel PNG file, as the image endpoints return it.\<close>

definition pixel_b64 :: string where
  "pixel_b64 =
     ''iVBORw0KGgoAAAANSUhEUgAAAAEAAAABCAYAAAAfFcSJAAAADUlEQVR42mNkYPhfDwAChwGA60e6kgAAAABJRU5ErkJggg==''"

definition pixel_png :: bytes where
  "pixel_png = map char_of
     [137, 80, 78, 71, 13, 10, 26, 10, 0, 0, 0, 13, 73, 72, 68, 82, 0, 0, 0, 1, 0, 0, 0, 1,
      8, 6, 0, 0, 0, 31, 21, 196, 137, 0, 0, 0, 13, 73, 68, 65, 84, 120, 218, 99, 100, 96,
      248, 95, 15, 0, 2, 135, 1, 128, 235, 71, 186, 146, 0, 0, 0, 0, 73, 69, 78, 68, 174,
      66, 96, 130 :: nat]"

text \<open>A world with one file, no variable set and nothing printed yet.\<close>

definition sample_world :: world where
  "sample_world =
     \<lparr>files = [''abc.txt'' \<mapsto> ''ABC''], write_denied = Map.empty, getenv = (\<lambda>n. []),
      stdout = [], stderr = [], requests = []\<rparr>"

text \<open>The sample environment with a service that answers with the given payloads or texts.\<close>

definition answering_images :: "string list \<Rightarrow> bytes sys" where
  "answering_images ps =
     sample_sys\<lparr>CreateImage := (\<lambda>key req. Inr (ImageResponse (map ImageResponseDataInner ps))),
                CreateEditImage := (\<lambda>key req. Inr (ImageResponse (map ImageResponseDataInner ps)))\<rparr>"

definition answering_choices :: "string list \<Rightarrow> bytes sys" where
  "answering_choices ts =
     sample_sys\<lparr>CreateCompletion := (\<lambda>key req. Inr (CompletionResponse (map CompletionChoice ts)))\<rparr>"

section \<open>Properties\<close>

subsection \<open>Auxiliary facts\<close>

lemmas effect_defs =
  log_Fatal_def fmt_Print_def fmt_Println_def ioutil_ReadFile_def os_Open_def
  ioutil_WriteFile_def send_def index_def

lemmas handler_defs =
  dialogue_def imageRecognition_def imageGeneration_def imageEditing_def
  audioGeneration_def audioTranscription_def client_CreateTranscription_def
  codeGeneration_def

lemma fold_Println:
  "fold (\<lambda>choice. fmt_Println (f choice)) cs w =
   w\<lparr>stdout := stdout w @ concat (map (\<lambda>c. f c @ [CHR 0x0A]) cs)\<rparr>"
  by (induction cs arbitrary: w) (simp_all add: fmt_Println_def fmt_Print_def)



lemma sample_pixel: "std_decode pixel_b64 = Some pixel_png"
  unfolding pixel_b64_def pixel_png_def by simp

lemma sample_signature:
  "take 8 pixel_png = png_signature" "png_signature @ drop 8 pixel_png = pixel_png"
  unfolding pixel_png_def png_signature_def by code_simp+

lemma sample_bare_rejected:
  "read_data_member pixel_b64 =
     Inl (''invalid character '' @ [CHR 0x27, CHR ''i'', CHR 0x27]
          @ '' looking for beginning of value'')"
  unfolding pixel_b64_def read_data_member_def data_open_def data_close_def
  by (simp add: begins_no_value_def no_value_error_def)

lemma sample_member_read:
  "read_data_member (data_open @ pixel_b64 @ data_close) = Inr pixel_b64"
  unfolding pixel_b64_def read_data_member_def data_open_def data_close_def
  by (simp add: plain_def)

lemma sample_getClient: "getClient ''sk-test'' sample_world = Inr ''sk-test''"
  by (simp add: getClient_def)

lemma sample_transform_good:
  "strToImageBytes sample_sys (data_open @ pixel_b64 @ data_close) = Inr pixel_png"
  by (simp add: strToImageBytes_def sample_sys_def sample_member_read sample_pixel
      sample_signature)

lemma sample_transform_bare:
  "strToImageBytes sample_sys pixel_b64 =
     Inl (''invalid character '' @ [CHR 0x27, CHR ''i'', CHR 0x27]
          @ '' looking for beginning of value'')"
  by (simp add: strToImageBytes_def sample_sys_def sample_bare_rejected)

lemma answering_images_codecs:
  "json_Unmarshal_Data (answering_images ps) = json_Unmarshal_Data sample_sys"
  "base64_DecodeString (answering_images ps) = base64_DecodeString sample_sys"
  "image_Decode (answering_images ps) = image_Decode sample_sys"
  "png_Encode (answering_images ps) = png_Encode sample_sys"
  by (simp_all add: answering_images_def)

lemma answering_images_transform [simp]:
  "strToImageBytes (answering_images ps) = strToImageBytes sample_sys"
  by (rule ext) (simp add: strToImageBytes_def answering_images_codecs cong: sum.case_cong)

lemma answering_images_calls [simp]:
  "CreateImage (answering_images ps) key req = Inr (ImageResponse (map ImageResponseDataInner ps))"
  "CreateEditImage (answering_images ps) key ereq =
     Inr (ImageResponse (map ImageResponseDataInner ps))"
  by (simp_all add: answering_images_def)

lemma answering_choices_calls [simp]:
  "CreateCompletion (answering_choices ts) key req =
     Inr (CompletionResponse (map CompletionChoice ts))"
  by (simp add: answering_choices_def)

lemma sample_sys_calls [simp]:
  "CreateCompletion sample_sys key req = Inl ''status code: 401''"
  "CreateImage sample_sys key ireq = Inl ''status code: 401''"
  "CreateEditImage sample_sys key ereq = Inl ''status code: 401''"
  "CreateTranscription sample_sys key areq audio = Inl ''status code: 401''"
  "audio_open_error sample_sys err = ''opening audio file: '' @ err"
  "base64_EncodeToString sample_sys bs = std_encode bs"
  by (simp_all add: sample_sys_def)

lemma sample_encode [simp]: "std_encode ''ABC'' = ''QUJD''"
  by (simp add: b64chr_def)

lemma sample_world_fields [simp]:
  "files sample_world = [''abc.txt'' \<mapsto> ''ABC'']"
  "write_denied sample_world = Map.empty"
  "stdout sample_world = []" "stderr sample_world = []" "requests sample_world = []"
  by (simp_all add: sample_world_def)

lemma decimal_digits: "decimal 2 = ''2''" "decimal 3 = ''3''"
  by code_simp+

lemma decimal_two: "decimal (Suc (Suc 0)) = ''2''"
  using decimal_digits(1) by (simp add: numeral_2_eq_2)

subsection \<open>What every run does to the request trace and to the files\<close>

lemma issued_self [simp]: "issued w w = []" "printed w w = []" "logged w w = []"
  by (simp_all add: issued_def printed_def logged_def)

lemma main_requests:
  "requests (snd (main S c openaiKey args w)) = requests w \<or>
   (\<exists>key r. getClient openaiKey w = Inr key \<and>
      requests (snd (main S c openaiKey args w)) = requests w @ [(key, r)])"
  by (cases c)
     (auto simp: main_def handler_defs effect_defs Let_def fold_Println
           split: sum.splits option.splits prod.splits if_splits)

lemma issued_cases:
  "issued w (snd (main S c openaiKey args w)) = [] \<and>
     requests (snd (main S c openaiKey args w)) = requests w \<or>
   (\<exists>key r. getClient openaiKey w = Inr key \<and>
      issued w (snd (main S c openaiKey args w)) = [(key, r)] \<and>
      requests (snd (main S c openaiKey args w)) = requests w @ [(key, r)])"
proof -
  consider "requests (snd (main S c openaiKey args w)) = requests w"
    | key r where "getClient openaiKey w = Inr key"
        "requests (snd (main S c openaiKey args w)) = requests w @ [(key, r)]"
    using main_requests [of S c openaiKey args w] by blast
  then show ?thesis
  proof cases
    case 1
    then show ?thesis by (simp add: issued_def)
  next
    case 2
    then have "issued w (snd (main S c openaiKey args w)) = [(key, r)]"
      by (simp add: issued_def)
    with 2 show ?thesis by blast
  qed
qed


lemma main_reaches_call:
  assumes "getClient openaiKey w = Inr key" "valid_args c args" "reaches_call c args w"
  shows "\<exists>r. requests (snd (main S c openaiKey args w)) = requests w @ [(key, r)]"
  using assms
  by (cases c)
     (auto simp: main_def valid_args_def handler_defs effect_defs Let_def fold_Println
           split: sum.splits option.splits prod.splits if_splits)

lemma main_write_frame:
  "getenv (snd (main S c openaiKey args w)) = getenv w \<and>
   write_denied (snd (main S c openaiKey args w)) = write_denied w \<and>
   (\<forall>p. output_file c args \<noteq> Some p \<longrightarrow> files (snd (main S c openaiKey args w)) p = files w p)"
  by (cases c)
     (auto simp: main_def handler_defs effect_defs Let_def fold_Println
           split: sum.splits option.splits prod.splits if_splits)

lemma main_unreadable_input:
  assumes "input_file c args = Some p" and "files w p = None"
  shows "fst (main S c openaiKey args w) = Exit1 \<and>
         issued w (snd (main S c openaiKey args w)) = [] \<and>
         printed w (snd (main S c openaiKey args w)) = [] \<and>
         files (snd (main S c openaiKey args w)) = files w"
  using assms
  by (cases c)
     (auto simp: main_def handler_defs effect_defs issued_def printed_def
           split: sum.splits option.splits if_splits)

subsection \<open>Runs on worlds that agree on the inputs\<close>

lemma getClient_same:
  "getenv v ''OPENAI_API_KEY'' = getenv w ''OPENAI_API_KEY'' \<Longrightarrow>
   getClient openaiKey v = getClient openaiKey w"
  by (simp add: getClient_def)

lemmas delta_defs = same_result_def printed_def logged_def issued_def

lemma read_frame_imageEditing:
  assumes k: "getClient openaiKey v = getClient openaiKey w"
    and f: "0 < length args \<Longrightarrow> files v (args ! 0) = files w (args ! 0)"
    and d: "2 < length args \<Longrightarrow> write_denied v (args ! 2) = write_denied w (args ! 2)"
  shows "same_result v (imageEditing S openaiKey args v) w (imageEditing S openaiKey args w)"
  by (simp add: imageEditing_def effect_defs delta_defs k f d Let_def
           split: sum.split option.split prod.split)


lemma read_frame_simple:
  assumes k: "getClient openaiKey v = getClient openaiKey w"
  shows "same_result v (dialogue S openaiKey args v) w (dialogue S openaiKey args w)"
    and "same_result v (codeGeneration S openaiKey args v) w (codeGeneration S openaiKey args w)"
  by (simp_all add: dialogue_def codeGeneration_def effect_defs
        delta_defs k Let_def fold_Println split: sum.split option.split)

lemma read_frame_audioTranscription:
  assumes k: "getClient openaiKey v = getClient openaiKey w"
    and f: "0 < length args \<Longrightarrow> files v (args ! 0) = files w (args ! 0)"
  shows "same_result v (audioTranscription S openaiKey args v) w
           (audioTranscription S openaiKey args w)"
  by (simp add: audioTranscription_def client_CreateTranscription_def effect_defs delta_defs
        k f Let_def split: sum.split option.split)

lemma read_frame_imageRecognition:
  assumes k: "getClient openaiKey v = getClient openaiKey w"
    and f: "0 < length args \<Longrightarrow> files v (args ! 0) = files w (args ! 0)"
  shows "same_result v (imageRecognition S openaiKey args v) w
           (imageRecognition S openaiKey args w)"
  by (simp add: imageRecognition_def effect_defs delta_defs k f Let_def
        split: sum.split option.split)

lemma read_frame_imageGeneration:
  assumes k: "getClient openaiKey v = getClient openaiKey w"
    and d: "write_denied v ''output.png'' = write_denied w ''output.png''"
  shows "same_result v (imageGeneration S openaiKey args v) w
           (imageGeneration S openaiKey args w)"
  by (simp add: imageGeneration_def effect_defs delta_defs k d Let_def
        split: sum.split option.split prod.split)

lemma read_frame_audioGeneration:
  assumes k: "getClient openaiKey v = getClient openaiKey w"
    and d: "Suc 0 < length args \<Longrightarrow>
          write_denied v (args ! Suc 0) = write_denied w (args ! Suc 0)"
  shows "same_result v (audioGeneration S openaiKey args v) w
           (audioGeneration S openaiKey args w)"
  by (simp add: audioGeneration_def effect_defs delta_defs k d Let_def
        split: sum.split option.split prod.split)

lemma read_frame_Run:
  assumes "same_inputs c args v w"
  shows "same_result v (Run c S openaiKey args v) w (Run c S openaiKey args w)"
proof -
  have k: "getClient openaiKey v = getClient openaiKey w"
    using assms getClient_same [of v w openaiKey] by (simp add: same_inputs_def)
  show ?thesis
  proof (cases c)
    case Dialogue
    then show ?thesis by (simp add: read_frame_simple(1) [OF k])
  next
    case ImageRecognition
    have "same_result v (imageRecognition S openaiKey args v) w
            (imageRecognition S openaiKey args w)"
      by (rule read_frame_imageRecognition [OF k])
         (use assms ImageRecognition in \<open>simp add: same_inputs_def index_def\<close>)
    with ImageRecognition show ?thesis by simp
  next
    case ImageGeneration
    have "same_result v (imageGeneration S openaiKey args v) w
            (imageGeneration S openaiKey args w)"
      by (rule read_frame_imageGeneration [OF k])
         (use assms ImageGeneration in \<open>simp add: same_inputs_def\<close>)
    with ImageGeneration show ?thesis by simp
  next
    case ImageEditing
    have "same_result v (imageEditing S openaiKey args v) w (imageEditing S openaiKey args w)"
      by (rule read_frame_imageEditing [OF k])
         (use assms ImageEditing in \<open>simp_all add: same_inputs_def index_def\<close>)
    with ImageEditing show ?thesis by simp
  next
    case AudioGeneration
    have "same_result v (audioGeneration S openaiKey args v) w
            (audioGeneration S openaiKey args w)"
      by (rule read_frame_audioGeneration [OF k])
         (use assms AudioGeneration in \<open>simp add: same_inputs_def index_def\<close>)
    with AudioGeneration show ?thesis by simp
  next
    case AudioTranscription
    have "same_result v (audioTranscription S openaiKey args v) w
            (audioTranscription S openaiKey args w)"
      by (rule read_frame_audioTranscription [OF k])
         (use assms AudioTranscription in \<open>simp add: same_inputs_def index_def\<close>)
    with AudioTranscription show ?thesis by simp
  next
    case CodeGeneration
    then show ?thesis by (simp add: read_frame_simple(2) [OF k])
  qed
qed

lemma read_frame_main:
  assumes "same_inputs c args v w"
  shows "same_result v (main S c openaiKey args v) w (main S c openaiKey args w)"
proof (cases "valid_args c args")
  case True
  then have "main S c openaiKey args v = Run c S openaiKey args v"
    "main S c openaiKey args w = Run c S openaiKey args w"
    by (simp_all add: main_def valid_args_def split: option.splits)
  with assms show ?thesis by (simp add: read_frame_Run)
next
  case False
  then show ?thesis
    by (simp add: main_def valid_args_def log_Fatal_def delta_defs split: option.splits)
qed


lemma output_frame_imageGeneration:
  assumes k: "getClient openaiKey v = getClient openaiKey w"
    and d: "write_denied v ''output.png'' = write_denied w ''output.png''"
  shows "files (snd (imageGeneration S openaiKey args v)) ''output.png'' =
           files (snd (imageGeneration S openaiKey args w)) ''output.png'' \<or>
         files (snd (imageGeneration S openaiKey args v)) ''output.png'' =
           files v ''output.png'' \<and>
         files (snd (imageGeneration S openaiKey args w)) ''output.png'' =
           files w ''output.png''"
  by (auto simp: imageGeneration_def effect_defs k d Let_def
        split: sum.splits option.splits prod.splits)

lemma output_frame_imageEditing:
  assumes k: "getClient openaiKey v = getClient openaiKey w"
    and f: "files v (args ! 0) = files w (args ! 0)"
    and d: "write_denied v (args ! 2) = write_denied w (args ! 2)"
  shows "files (snd (imageEditing S openaiKey args v)) (args ! 2) =
           files (snd (imageEditing S openaiKey args w)) (args ! 2) \<or>
         files (snd (imageEditing S openaiKey args v)) (args ! 2) = files v (args ! 2) \<and>
         files (snd (imageEditing S openaiKey args w)) (args ! 2) = files w (args ! 2)"
  by (auto simp: imageEditing_def effect_defs k f d Let_def
        split: sum.splits option.splits prod.splits)

lemma output_frame_audioGeneration:
  assumes k: "getClient openaiKey v = getClient openaiKey w"
    and d: "write_denied v (args ! Suc 0) = write_denied w (args ! Suc 0)"
  shows "files (snd (audioGeneration S openaiKey args v)) (args ! Suc 0) =
           files (snd (audioGeneration S openaiKey args w)) (args ! Suc 0) \<or>
         files (snd (audioGeneration S openaiKey args v)) (args ! Suc 0) =
           files v (args ! Suc 0) \<and>
         files (snd (audioGeneration S openaiKey args w)) (args ! Suc 0) =
           files w (args ! Suc 0)"
  by (auto simp: audioGeneration_def effect_defs k d Let_def
        split: sum.splits option.splits prod.splits)

lemma output_frame_Run:
  assumes "same_inputs c args v w" and "output_file c args = Some p"
  shows "files (snd (Run c S openaiKey args v)) p = files (snd (Run c S openaiKey args w)) p \<or>
         files (snd (Run c S openaiKey args v)) p = files v p \<and>
         files (snd (Run c S openaiKey args w)) p = files w p"
proof -
  have k: "getClient openaiKey v = getClient openaiKey w"
    using assms getClient_same [of v w openaiKey] by (simp add: same_inputs_def)
  show ?thesis
  proof (cases c)
    case ImageGeneration
    with assms have "p = ''output.png''"
      and "write_denied v ''output.png'' = write_denied w ''output.png''"
      by (auto simp: same_inputs_def)
    with output_frame_imageGeneration [OF k, of S args] ImageGeneration
    show ?thesis by simp
  next
    case ImageEditing
    with assms have "p = args ! 2" and "files v (args ! 0) = files w (args ! 0)"
      and "write_denied v (args ! 2) = write_denied w (args ! 2)"
      by (auto simp: same_inputs_def index_def split: if_splits)
    with output_frame_imageEditing [OF k, of args S] ImageEditing
    show ?thesis by simp
  next
    case AudioGeneration
    with assms have "p = args ! Suc 0"
      and "write_denied v (args ! Suc 0) = write_denied w (args ! Suc 0)"
      by (auto simp: same_inputs_def index_def split: if_splits)
    with output_frame_audioGeneration [OF k, of args S] AudioGeneration
    show ?thesis by simp
  qed (use assms in simp_all)
qed

lemma output_frame_main:
  assumes "same_inputs c args v w" and "output_file c args = Some p"
  shows "files (snd (main S c openaiKey args v)) p = files (snd (main S c openaiKey args w)) p \<or>
         files (snd (main S c openaiKey args v)) p = files v p \<and>
         files (snd (main S c openaiKey args w)) p = files w p"
proof (cases "valid_args c args")
  case True
  then have "main S c openaiKey args v = Run c S openaiKey args v"
    "main S c openaiKey args w = Run c S openaiKey args w"
    by (simp_all add: main_def valid_args_def split: option.splits)
  with assms show ?thesis by (simp add: output_frame_Run)
next
  case False
  then show ?thesis
    by (simp add: main_def valid_args_def log_Fatal_def split: option.splits)
qed

subsection \<open>The response transformation\<close>

text \<open>
  What image generation and image editing do with the first payload of the response,
  once the request is sent: the whole run in terms of the JSON reading of the payload and
  of the pipeline of the specification applied to what the reading yields.
\<close>

lemma strToImageBytes_json_first:
  "strToImageBytes S input =
     (case json_Unmarshal_Data S input of
        Inl err \<Rightarrow> Inl err
      | Inr d \<Rightarrow> decode_and_reencode S d)"
  by (auto simp: strToImageBytes_def decode_and_reencode_def split: sum.splits)

lemma imageGeneration_payload:
  assumes "getClient openaiKey w = Inr key" and "args = [prompt]"
  shows "\<exists>r answer.
     issued w (snd (main S ImageGeneration openaiKey args w)) = [(key, r)] \<and>
     image_answer S key r = Some answer \<and>
     (case answer of
        Inl err \<Rightarrow>
          fst (main S ImageGeneration openaiKey args w) = Exit1 \<and>
          files (snd (main S ImageGeneration openaiKey args w)) = files w
      | Inr result \<Rightarrow>
          (case Data result of
             [] \<Rightarrow>
               fst (main S ImageGeneration openaiKey args w) = Exit1 \<and>
               files (snd (main S ImageGeneration openaiKey args w)) = files w
           | d # ds \<Rightarrow>
               main S ImageGeneration openaiKey args w =
                 (case json_Unmarshal_Data S (B64JSON d) of
                    Inl err \<Rightarrow> log_Fatal err (send key r w)
                  | Inr imageData \<Rightarrow>
                      (case decode_and_reencode S imageData of
                         Inl err \<Rightarrow> log_Fatal err (send key r w)
                       | Inr png \<Rightarrow>
                           (case ioutil_WriteFile ''output.png'' png (send key r w) of
                              (Some err, w2) \<Rightarrow> log_Fatal err w2
                            | (None, w2) \<Rightarrow>
                                (Returned,
                                 fmt_Print (''Image saved to '' @ ''output.png'' @ [CHR 0x0A]) w2))))))"
    (is "\<exists>r answer. ?P r answer")
proof -
  let ?req = "\<lparr>ireq_Prompt = prompt, ireq_N = 1, ireq_Size = CreateImageSize256x256,
               ireq_ResponseFormat = CreateImageResponseFormatB64JSON,
               ireq_User = ''Developer''\<rparr>"
  have "?P (Image ?req) (CreateImage S key ?req)"
    using assms
    by (simp add: main_def imageGeneration_def strToImageBytes_json_first effect_defs
          issued_def split: sum.split list.split option.split)
  then show ?thesis by blast
qed

lemma imageEditing_payload:
  assumes "getClient openaiKey w = Inr key" and "args = [inputFile, instructions, out]"
    and "files w inputFile = Some inputData"
  shows "\<exists>r answer.
     issued w (snd (main S ImageEditing openaiKey args w)) = [(key, r)] \<and>
     image_answer S key r = Some answer \<and>
     (case answer of
        Inl err \<Rightarrow>
          fst (main S ImageEditing openaiKey args w) = Exit1 \<and>
          files (snd (main S ImageEditing openaiKey args w)) = files w
      | Inr result \<Rightarrow>
          (case Data result of
             [] \<Rightarrow>
               fst (main S ImageEditing openaiKey args w) = Exit1 \<and>
               files (snd (main S ImageEditing openaiKey args w)) = files w
           | d # ds \<Rightarrow>
               main S ImageEditing openaiKey args w =
                 (case json_Unmarshal_Data S (B64JSON d) of
                    Inl err \<Rightarrow> log_Fatal err (send key r w)
                  | Inr imageData \<Rightarrow>
                      (case decode_and_reencode S imageData of
                         Inl err \<Rightarrow> log_Fatal err (send key r w)
                       | Inr png \<Rightarrow>
                           (case ioutil_WriteFile out png (send key r w) of
                              (Some err, w2) \<Rightarrow> log_Fatal err w2
                            | (None, w2) \<Rightarrow>
                                (Returned,
                                 fmt_Print (''Image saved to '' @ out @ [CHR 0x0A]) w2))))))"
    (is "\<exists>r answer. ?P r answer")
proof -
  let ?req = "\<lparr>ereq_Image = inputData, ereq_Prompt = instructions, ereq_N = 1,
               ereq_Size = CreateImageSize256x256\<rparr>"
  have "?P (ImageEdit ?req) (CreateEditImage S key ?req)"
    using assms
    by (simp add: main_def imageEditing_def strToImageBytes_json_first effect_defs
          issued_def split: sum.split list.split option.split)
  then show ?thesis by blast
qed

text \<open>
  C1: for an image-generation or image-editing response, the transformation applied to
  the payload before the output file is written is base64 decoding followed by PNG
  re-encoding. The handlers do transform the first payload of the response and write
  what the transformation returns, but the transformation is not the one of the claim:
  \<open>strToImageBytes\<close> first reads the payload as JSON and applies the pipeline to the
  \<open>data\<close> member. A run that has sent its request ends with the error of the JSON
  reading and writes nothing whenever that reading fails, whatever the pipeline makes of
  the payload; it writes the PNG bytes only of a payload that is a JSON text.
\<close>

theorem image_payload_transformation:
  assumes "c = ImageGeneration \<or> c = ImageEditing"
    and "getClient openaiKey w = Inr key" and "valid_args c args"
    and "reaches_call c args w" and "output_file c args = Some out"
  shows "\<exists>r answer.
     issued w (snd (main S c openaiKey args w)) = [(key, r)] \<and>
     image_answer S key r = Some answer \<and>
     (case answer of
        Inl err \<Rightarrow>
          fst (main S c openaiKey args w) = Exit1 \<and>
          files (snd (main S c openaiKey args w)) = files w
      | Inr result \<Rightarrow>
          (case Data result of
             [] \<Rightarrow>
               fst (main S c openaiKey args w) = Exit1 \<and>
               files (snd (main S c openaiKey args w)) = files w
           | d # ds \<Rightarrow>
               main S c openaiKey args w =
                 (case json_Unmarshal_Data S (B64JSON d) of
                    Inl err \<Rightarrow> log_Fatal err (send key r w)
                  | Inr imageData \<Rightarrow>
                      (case decode_and_reencode S imageData of
                         Inl err \<Rightarrow> log_Fatal err (send key r w)
                       | Inr png \<Rightarrow>
                           (case ioutil_WriteFile out png (send key r w) of
                              (Some err, w2) \<Rightarrow> log_Fatal err w2
                            | (None, w2) \<Rightarrow>
                                (Returned,
                                 fmt_Print (''Image saved to '' @ out @ [CHR 0x0A]) w2))))))"
  using assms(1)
proof
  assume c: "c = ImageGeneration"
  with assms(3,5) obtain prompt where a: "args = [prompt]" and o: "out = ''output.png''"
    by (auto simp: valid_args_def length_Suc_conv)
  show ?thesis
    using imageGeneration_payload [OF assms(2) a, of S] unfolding c o .
next
  assume c: "c = ImageEditing"
  with assms(3,4,5) obtain inputFile instructions inputData
    where a: "args = [inputFile, instructions, out]" and f: "files w inputFile = Some inputData"
    by (auto simp: valid_args_def index_def length_Suc_conv numeral_3_eq_3)
  show ?thesis
    using imageEditing_payload [OF assms(2) a f, of S] unfolding c .
qed

text \<open>
  The run on the payload that the service returns under the response format
  \<open>b64_json\<close>, which image generation asks for: the base64 text of a PNG file. The
  pipeline of the claim accepts it; the JSON reading rejects its first byte, and both
  handlers exit with that error and write no file.
\<close>

theorem image_payload_transformation_witness:
  "json_Unmarshal_Data (answering_images [pixel_b64]) pixel_b64 =
     Inl (''invalid character '' @ [CHR 0x27, CHR ''i'', CHR 0x27]
          @ '' looking for beginning of value'')
   \<and> \<not> isl (decode_and_reencode (answering_images [pixel_b64]) pixel_b64)
   \<and> main (answering_images [pixel_b64]) ImageGeneration ''sk-test'' [''a cat''] sample_world =
       (Exit1,
        sample_world\<lparr>stderr := [''invalid character '' @ [CHR 0x27, CHR ''i'', CHR 0x27]
                                 @ '' looking for beginning of value''],
          requests := [(''sk-test'',
            Image \<lparr>ireq_Prompt = ''a cat'', ireq_N = 1, ireq_Size = CreateImageSize256x256,
                   ireq_ResponseFormat = CreateImageResponseFormatB64JSON,
                   ireq_User = ''Developer''\<rparr>)]\<rparr>)
   \<and> main (answering_images [pixel_b64]) ImageEditing ''sk-test''
         [''abc.txt'', ''add a hat'', ''out.png''] sample_world =
       (Exit1,
        sample_world\<lparr>stderr := [''invalid character '' @ [CHR 0x27, CHR ''i'', CHR 0x27]
                                 @ '' looking for beginning of value''],
          requests := [(''sk-test'',
            ImageEdit \<lparr>ereq_Image = ''ABC'', ereq_Prompt = ''add a hat'', ereq_N = 1,
                       ereq_Size = CreateImageSize256x256\<rparr>)]\<rparr>)"
proof -
  have j: "json_Unmarshal_Data (answering_images [pixel_b64]) pixel_b64 =
     Inl (''invalid character '' @ [CHR 0x27, CHR ''i'', CHR 0x27]
          @ '' looking for beginning of value'')"
    by (simp add: answering_images_codecs sample_sys_def sample_bare_rejected)
  have d: "decode_and_reencode (answering_images [pixel_b64]) pixel_b64 = Inr pixel_png"
    by (simp add: decode_and_reencode_def answering_images_codecs sample_sys_def sample_pixel
        sample_signature)
  show ?thesis
    using image_payload_transformation [of ImageGeneration "''sk-test''" sample_world
        "''sk-test''" "[''a cat'']" "''output.png''" "answering_images [pixel_b64]"]
      image_payload_transformation [of ImageEditing "''sk-test''" sample_world
        "''sk-test''" "[''abc.txt'', ''add a hat'', ''out.png'']" "''out.png''"
        "answering_images [pixel_b64]"]
    by (simp add: j d main_def imageGeneration_def imageEditing_def effect_defs
        sample_getClient sample_transform_bare)
qed

subsection \<open>Key resolution\<close>



subsection \<open>Errors of the remote call\<close>

text \<open>
  C3: whenever the remote call returns an error, the program prints that error and
  exits, and no file is created or modified. Evaluated where the image service answers
  \<open>status code: 401\<close>: image generation exits with status 1 and leaves the files alone,
  but the message it logs is the fixed text \<open>no result, no image data\<close>; the error of the
  call is not printed. Image editing, on the same answer, logs the error.
\<close>

theorem imageGeneration_hides_api_error:
  "CreateImage sample_sys ''sk-test''
     \<lparr>ireq_Prompt = ''a cat'', ireq_N = 1, ireq_Size = CreateImageSize256x256,
      ireq_ResponseFormat = CreateImageResponseFormatB64JSON, ireq_User = ''Developer''\<rparr>
     = Inl ''status code: 401''
   \<and> main sample_sys ImageGeneration ''sk-test'' [''a cat''] sample_world =
       (Exit1,
        sample_world\<lparr>stderr := [''no result, no image data''],
          requests := [(''sk-test'',
            Image \<lparr>ireq_Prompt = ''a cat'', ireq_N = 1, ireq_Size = CreateImageSize256x256,
                   ireq_ResponseFormat = CreateImageResponseFormatB64JSON,
                   ireq_User = ''Developer''\<rparr>)]\<rparr>)
   \<and> main sample_sys ImageEditing ''sk-test'' [''abc.txt'', ''add a hat'', ''out.png'']
         sample_world =
       (Exit1,
        sample_world\<lparr>stderr := [''status code: 401''],
          requests := [(''sk-test'',
            ImageEdit \<lparr>ereq_Image = ''ABC'', ereq_Prompt = ''add a hat'', ereq_N = 1,
                       ereq_Size = CreateImageSize256x256\<rparr>)]\<rparr>)"
  by (simp add: main_def imageGeneration_def imageEditing_def effect_defs sample_getClient)

subsection \<open>Image generation\<close>

text \<open>
  C4, as stated: when the call succeeds and the response holds at least one image whose
  payload transforms, image generation writes the bytes to \<open>output.png\<close> and prints the
  confirmation. It fails in two runs. In the first the response holds two images, the
  second of which transforms; the handler reads only the first and exits with its error.
  In the second the only image transforms but \<open>output.png\<close> may not be written; the
  handler exits with the error of the write. Neither run prints or writes anything.
\<close>

theorem imageGeneration_not_saved:
  "strToImageBytes (answering_images [pixel_b64, data_open @ pixel_b64 @ data_close])
     (data_open @ pixel_b64 @ data_close) = Inr pixel_png
   \<and> main (answering_images [pixel_b64, data_open @ pixel_b64 @ data_close])
         ImageGeneration ''sk-test'' [''a cat''] sample_world =
       (Exit1,
        sample_world\<lparr>stderr := [''invalid character '' @ [CHR 0x27, CHR ''i'', CHR 0x27]
                                 @ '' looking for beginning of value''],
          requests := [(''sk-test'',
            Image \<lparr>ireq_Prompt = ''a cat'', ireq_N = 1, ireq_Size = CreateImageSize256x256,
                   ireq_ResponseFormat = CreateImageResponseFormatB64JSON,
                   ireq_User = ''Developer''\<rparr>)]\<rparr>)
   \<and> main (answering_images [data_open @ pixel_b64 @ data_close])
         ImageGeneration ''sk-test'' [''a cat'']
         (sample_world\<lparr>write_denied := [''output.png'' \<mapsto> ''open output.png: permission denied'']\<rparr>) =
       (Exit1,
        sample_world\<lparr>write_denied := [''output.png'' \<mapsto> ''open output.png: permission denied''],
          stderr := [''open output.png: permission denied''],
          requests := [(''sk-test'',
            Image \<lparr>ireq_Prompt = ''a cat'', ireq_N = 1, ireq_Size = CreateImageSize256x256,
                   ireq_ResponseFormat = CreateImageResponseFormatB64JSON,
                   ireq_User = ''Developer''\<rparr>)]\<rparr>)"
  by (simp add: main_def imageGeneration_def effect_defs getClient_def
      sample_transform_good sample_transform_bare)

text \<open>
  C4, amended: when the key resolves, the call succeeds, the first image of the response
  transforms and \<open>output.png\<close> may be written, image generation writes the transformed
  bytes to \<open>output.png\<close>, prints \<open>Image saved to output.png\<close> and a newline, and
  returns.
\<close>

theorem imageGeneration_saves_first_image:
  assumes "getClient openaiKey w = Inr key" and "args = [prompt]"
    and "req = \<lparr>ireq_Prompt = prompt, ireq_N = 1, ireq_Size = CreateImageSize256x256,
                 ireq_ResponseFormat = CreateImageResponseFormatB64JSON,
                 ireq_User = ''Developer''\<rparr>"
    and "CreateImage S key req = Inr result"
    and "Data result = d # ds" and "strToImageBytes S (B64JSON d) = Inr imageBytes"
    and "write_denied w ''output.png'' = None"
  shows "main S ImageGeneration openaiKey args w =
           (Returned,
            w\<lparr>files := (files w)(''output.png'' \<mapsto> imageBytes),
              stdout := stdout w @ ''Image saved to output.png'' @ [CHR 0x0A],
              requests := requests w @ [(key, Image req)]\<rparr>)"
  using assms by (simp add: main_def imageGeneration_def effect_defs)

theorem imageGeneration_saves_first_image_witness:
  "main (answering_images [data_open @ pixel_b64 @ data_close]) ImageGeneration ''sk-test''
     [''a cat''] sample_world =
   (Returned,
    sample_world\<lparr>files := [''abc.txt'' \<mapsto> ''ABC'', ''output.png'' \<mapsto> pixel_png],
      stdout := ''Image saved to output.png'' @ [CHR 0x0A],
      requests := [(''sk-test'',
        Image \<lparr>ireq_Prompt = ''a cat'', ireq_N = 1, ireq_Size = CreateImageSize256x256,
               ireq_ResponseFormat = CreateImageResponseFormatB64JSON,
               ireq_User = ''Developer''\<rparr>)]\<rparr>)"
  using imageGeneration_saves_first_image [of "''sk-test''" sample_world "''sk-test''"
      "[''a cat'']" "''a cat''" _ "answering_images [data_open @ pixel_b64 @ data_close]"
      "ImageResponse [ImageResponseDataInner (data_open @ pixel_b64 @ data_close)]"
      "ImageResponseDataInner (data_open @ pixel_b64 @ data_close)" "[]" pixel_png,
      OF sample_getClient]
  by (simp add: sample_transform_good)

subsection \<open>One request per run\<close>

text \<open>
  C5, as stated: after key resolution and argument validation every run issues exactly
  one request. It fails for image recognition on a file that does not exist: the key
  resolves, the one argument passes the constraint, and the run exits on the read error
  with no request issued.
\<close>

theorem imageRecognition_sends_nothing:
  "getClient ''sk-test'' sample_world = Inr ''sk-test''
   \<and> valid_args ImageRecognition [''missing.png'']
   \<and> main sample_sys ImageRecognition ''sk-test'' [''missing.png''] sample_world =
       (Exit1, sample_world\<lparr>stderr := [''open missing.png: no such file or directory'']\<rparr>)
   \<and> issued sample_world
         (snd (main sample_sys ImageRecognition ''sk-test'' [''missing.png''] sample_world)) = []"
  by (simp add: main_def imageRecognition_def effect_defs sample_getClient valid_args_def
      issued_def)

text \<open>
  C5, amended: every run sends at most one request, appended to the trace, and none is
  repeated. It sends exactly one, with the resolved key, when the key resolves, the
  argument constraint holds and the steps before the sending succeed: dialogue has a
  first argument, and the input file of image recognition, image editing or audio
  transcription can be read. When that file cannot be read the run exits with status 1
  before any request is sent, and prints and writes nothing.
\<close>

theorem at_most_one_request:
  "length (issued w (snd (main S c openaiKey args w))) \<le> 1
   \<and> requests (snd (main S c openaiKey args w)) =
       requests w @ issued w (snd (main S c openaiKey args w))
   \<and> (getClient openaiKey w = Inr key \<and> valid_args c args \<and> reaches_call c args w \<longrightarrow>
        (\<exists>r. issued w (snd (main S c openaiKey args w)) = [(key, r)]))
   \<and> (input_file c args = Some p \<and> files w p = None \<longrightarrow>
        fst (main S c openaiKey args w) = Exit1 \<and>
        issued w (snd (main S c openaiKey args w)) = [] \<and>
        printed w (snd (main S c openaiKey args w)) = [] \<and>
        files (snd (main S c openaiKey args w)) = files w)"
proof -
  have a: "length (issued w (snd (main S c openaiKey args w))) \<le> 1"
    using issued_cases [of w S c openaiKey args] by auto
  have b: "requests (snd (main S c openaiKey args w)) =
       requests w @ issued w (snd (main S c openaiKey args w))"
    using issued_cases [of w S c openaiKey args] by auto
  have c: "\<exists>r. issued w (snd (main S c openaiKey args w)) = [(key, r)]"
    if h: "getClient openaiKey w = Inr key \<and> valid_args c args \<and> reaches_call c args w"
  proof -
    from h main_reaches_call [of openaiKey w key c args S]
    obtain r where "requests (snd (main S c openaiKey args w)) = requests w @ [(key, r)]"
      by blast
    then have "issued w (snd (main S c openaiKey args w)) = [(key, r)]"
      by (simp add: issued_def)
    then show ?thesis ..
  qed
  have d: "fst (main S c openaiKey args w) = Exit1 \<and>
        issued w (snd (main S c openaiKey args w)) = [] \<and>
        printed w (snd (main S c openaiKey args w)) = [] \<and>
        files (snd (main S c openaiKey args w)) = files w"
    if h: "input_file c args = Some p \<and> files w p = None"
    using h main_unreadable_input [of c args p w S openaiKey] by blast
  show ?thesis
    apply (rule conjI [OF a])
    apply (rule conjI [OF b])
    apply (rule conjI)
     apply (rule impI)
     apply (erule c)
    apply (rule impI)
    apply (erule d)
    done
qed

theorem at_most_one_request_witness:
  "getClient ''sk-test'' sample_world = Inr ''sk-test''
   \<and> valid_args ImageRecognition [''abc.txt'']
   \<and> reaches_call ImageRecognition [''abc.txt''] sample_world
   \<and> issued sample_world
         (snd (main sample_sys ImageRecognition ''sk-test'' [''abc.txt''] sample_world)) =
       [(''sk-test'',
         Completion \<lparr>creq_Model = ''image-alpha-001'', creq_Prompt = describe_prefix @ ''QUJD'',
                     creq_MaxTokens = 50, creq_Temperature = 1 / 2, creq_N = 1\<rparr>)]
   \<and> input_file AudioTranscription [''missing.mp3''] = Some ''missing.mp3''
   \<and> files sample_world ''missing.mp3'' = None
   \<and> fst (main sample_sys AudioTranscription ''sk-test'' [''missing.mp3''] sample_world) = Exit1
   \<and> issued sample_world
         (snd (main sample_sys AudioTranscription ''sk-test'' [''missing.mp3''] sample_world)) = []
   \<and> fst (main sample_sys ImageEditing ''sk-test'' [''missing.png'', ''add a hat'', ''out.png'']
          sample_world) = Exit1
   \<and> issued sample_world
         (snd (main sample_sys ImageEditing ''sk-test'' [''missing.png'', ''add a hat'', ''out.png'']
            sample_world)) = []"
  using at_most_one_request [of sample_world sample_sys ImageRecognition "''sk-test''"
      "[''abc.txt'']" "''sk-test''"]
    at_most_one_request [of sample_world sample_sys AudioTranscription "''sk-test''"
      "[''missing.mp3'']" "''sk-test''" "''missing.mp3''"]
    at_most_one_request [of sample_world sample_sys ImageEditing "''sk-test''"
      "[''missing.png'', ''add a hat'', ''out.png'']" "''sk-test''" "''missing.png''"]
  by (simp add: main_def imageRecognition_def effect_defs sample_getClient valid_args_def
      issued_def b64chr_def index_def)

subsection \<open>Dialogue output\<close>

text \<open>
  C6: when the key resolves, a prompt is given and the completion call succeeds, dialogue
  prints the text of every choice of the response, in response order, each followed by a
  newline, and returns. For an empty choice list it prints nothing and returns.
\<close>

theorem dialogue_prints_choices:
  assumes "getClient openaiKey w = Inr key" and "args = prompt # rest"
    and "req = \<lparr>creq_Model = ''text-davinci-003'', creq_Prompt = prompt,
                 creq_MaxTokens = 5000, creq_Temperature = 0, creq_N = 0\<rparr>"
    and "CreateCompletion S key req = Inr completion"
  shows "main S Dialogue openaiKey args w =
           (Returned,
            w\<lparr>stdout := stdout w
                 @ concat (map (\<lambda>c. choice_Text c @ [CHR 0x0A]) (Choices completion)),
              requests := requests w @ [(key, Completion req)]\<rparr>)
         \<and> (Choices completion = [] \<longrightarrow>
              stdout (snd (main S Dialogue openaiKey args w)) = stdout w)"
  using assms by (simp add: main_def dialogue_def index_def send_def fold_Println)

theorem dialogue_prints_choices_witness:
  "main (sample_sys\<lparr>CreateCompletion :=
           \<lambda>key req. Inr (CompletionResponse [CompletionChoice ''Hi'', CompletionChoice ''Yo''])\<rparr>)
     Dialogue ''sk-test'' [''hello''] sample_world =
   (Returned,
    sample_world\<lparr>stdout := ''Hi'' @ [CHR 0x0A] @ ''Yo'' @ [CHR 0x0A],
      requests := [(''sk-test'',
        Completion \<lparr>creq_Model = ''text-davinci-003'', creq_Prompt = ''hello'',
                    creq_MaxTokens = 5000, creq_Temperature = 0, creq_N = 0\<rparr>)]\<rparr>)"
  using dialogue_prints_choices [of "''sk-test''" sample_world "''sk-test''" "[''hello'']"
      "''hello''" "[]" _
      "sample_sys\<lparr>CreateCompletion :=
         \<lambda>key req. Inr (CompletionResponse [CompletionChoice ''Hi'', CompletionChoice ''Yo''])\<rparr>"
      "CompletionResponse [CompletionChoice ''Hi'', CompletionChoice ''Yo'']", OF sample_getClient]
  by (simp add: sample_world_def)

subsection \<open>A response without images\<close>

text \<open>
  C7: when the call succeeds but the response holds no image, image generation and
  image editing print the error and exit without writing a file. Evaluated on a service
  that answers with no image: both exit with status 1 and write nothing; image editing
  logs \<open>no result, no image edited\<close>, while image generation calls \<open>log.Fatal\<close> without
  an argument and logs an empty message.
\<close>

theorem imageGeneration_no_images_empty_message:
  "main (answering_images []) ImageGeneration ''sk-test'' [''a cat''] sample_world =
       (Exit1,
        sample_world\<lparr>stderr := [[]],
          requests := [(''sk-test'',
            Image \<lparr>ireq_Prompt = ''a cat'', ireq_N = 1, ireq_Size = CreateImageSize256x256,
                   ireq_ResponseFormat = CreateImageResponseFormatB64JSON,
                   ireq_User = ''Developer''\<rparr>)]\<rparr>)
   \<and> main (answering_images []) ImageEditing ''sk-test''
         [''abc.txt'', ''add a hat'', ''out.png''] sample_world =
       (Exit1,
        sample_world\<lparr>stderr := [''no result, no image edited''],
          requests := [(''sk-test'',
            ImageEdit \<lparr>ereq_Image = ''ABC'', ereq_Prompt = ''add a hat'', ereq_N = 1,
                       ereq_Size = CreateImageSize256x256\<rparr>)]\<rparr>)"
  by (simp add: main_def imageGeneration_def imageEditing_def effect_defs sample_getClient)

subsection \<open>Frame\<close>

text \<open>
  C8: a run changes no file other than the designated output file of its subcommand
  (\<open>output.png\<close> for image generation, the path given for image editing and audio
  generation, none for the others), and it changes neither the environment nor the
  permissions. It also reads nothing but its inputs: on two worlds that agree on the key
  variable, on the named input file and on whether the output file may be written, the
  run ends the same way, prints and logs the same text and issues the same requests, and
  the output file either ends with the same content in both or is left as it was in both.
  The key variable and the arguments are inputs of the invocation. The input file of
  audio transcription is read by the client library.
\<close>

theorem invocation_frame:
  "getenv (snd (main S c openaiKey args w)) = getenv w
   \<and> write_denied (snd (main S c openaiKey args w)) = write_denied w
   \<and> (\<forall>p. output_file c args \<noteq> Some p \<longrightarrow>
          files (snd (main S c openaiKey args w)) p = files w p)
   \<and> (same_inputs c args v w \<longrightarrow>
        same_result v (main S c openaiKey args v) w (main S c openaiKey args w) \<and>
        (\<forall>p. output_file c args = Some p \<longrightarrow>
           files (snd (main S c openaiKey args v)) p = files (snd (main S c openaiKey args w)) p \<or>
           files (snd (main S c openaiKey args v)) p = files v p \<and>
           files (snd (main S c openaiKey args w)) p = files w p))"
proof (intro conjI impI allI)
  show "getenv (snd (main S c openaiKey args w)) = getenv w"
    and "write_denied (snd (main S c openaiKey args w)) = write_denied w"
    by (simp_all add: main_write_frame)
  show "files (snd (main S c openaiKey args w)) p = files w p"
    if "output_file c args \<noteq> Some p" for p
    using that by (simp add: main_write_frame)
  show "same_result v (main S c openaiKey args v) w (main S c openaiKey args w)"
    if "same_inputs c args v w"
    using that by (rule read_frame_main)
  show "files (snd (main S c openaiKey args v)) p = files (snd (main S c openaiKey args w)) p \<or>
        files (snd (main S c openaiKey args v)) p = files v p \<and>
        files (snd (main S c openaiKey args w)) p = files w p"
    if "same_inputs c args v w" "output_file c args = Some p" for p
    using that by (rule output_frame_main)
qed

theorem invocation_frame_witness:
  "same_inputs ImageEditing [''abc.txt'', ''add a hat'', ''out.png'']
     (sample_world\<lparr>files := [''abc.txt'' \<mapsto> ''ABC'', ''notes.txt'' \<mapsto> ''N'']\<rparr>) sample_world
   \<and> same_result
        (sample_world\<lparr>files := [''abc.txt'' \<mapsto> ''ABC'', ''notes.txt'' \<mapsto> ''N'']\<rparr>)
        (main (answering_images [data_open @ pixel_b64 @ data_close]) ImageEditing ''sk-test''
           [''abc.txt'', ''add a hat'', ''out.png'']
           (sample_world\<lparr>files := [''abc.txt'' \<mapsto> ''ABC'', ''notes.txt'' \<mapsto> ''N'']\<rparr>))
        sample_world
        (main (answering_images [data_open @ pixel_b64 @ data_close]) ImageEditing ''sk-test''
           [''abc.txt'', ''add a hat'', ''out.png''] sample_world)
   \<and> files (snd (main (answering_images [data_open @ pixel_b64 @ data_close]) ImageEditing
          ''sk-test'' [''abc.txt'', ''add a hat'', ''out.png''] sample_world)) ''abc.txt'' =
       Some ''ABC''
   \<and> files (snd (main (answering_images [data_open @ pixel_b64 @ data_close]) ImageEditing
          ''sk-test'' [''abc.txt'', ''add a hat'', ''out.png''] sample_world)) ''out.png'' =
       Some pixel_png"
  using invocation_frame [of "answering_images [data_open @ pixel_b64 @ data_close]"
      ImageEditing "''sk-test''" "[''abc.txt'', ''add a hat'', ''out.png'']" sample_world
      "sample_world\<lparr>files := [''abc.txt'' \<mapsto> ''ABC'', ''notes.txt'' \<mapsto> ''N'']\<rparr>"]
  by (simp add: same_inputs_def index_def main_def imageEditing_def effect_defs getClient_def
      sample_transform_good)

subsection \<open>Unchecked indexing\<close>

text \<open>
  C9: dialogue is the only subcommand without an argument constraint. Every other
  subcommand rejects a wrong argument count before its handler runs: the run logs the
  error of the constraint and exits with status 1, whatever the service. Dialogue run
  with no argument reads \<open>args[0]\<close> once the key has resolved, which is out of range: the
  run ends in a panic, with nothing printed, written or sent.
\<close>

theorem dialogue_args_unchecked:
  "Args Dialogue = None
   \<and> (\<forall>c. c \<noteq> Dialogue \<longrightarrow> Args c \<noteq> None)
   \<and> (\<forall>c n. Args c = Some n \<and> length args \<noteq> n \<longrightarrow>
         main S c openaiKey args w =
           (Exit1, w\<lparr>stderr := stderr w @ [ExactArgs_error n (length args)]\<rparr>))
   \<and> (getClient openaiKey w = Inr key \<longrightarrow>
         main S Dialogue openaiKey [] w = (IndexOutOfRange 0 0, w))"
proof -
  have "Args c \<noteq> None" if "c \<noteq> Dialogue" for c
    using that by (cases c) simp_all
  then show ?thesis
    by (simp add: main_def log_Fatal_def dialogue_def index_def)
qed

theorem dialogue_args_unchecked_witness:
  "main sample_sys Dialogue ''sk-test'' [] sample_world = (IndexOutOfRange 0 0, sample_world)
   \<and> main sample_sys ImageEditing ''sk-test'' [''abc.txt'', ''add a hat''] sample_world =
       (Exit1, sample_world\<lparr>stderr := [''accepts 3 arg(s), received 2'']\<rparr>)"
  using dialogue_args_unchecked [of "[''abc.txt'', ''add a hat'']" sample_sys "''sk-test''"
      sample_world "''sk-test''"]
    dialogue_args_unchecked [of "[]" sample_sys "''sk-test''" sample_world "''sk-test''"]
  by (simp add: sample_getClient ExactArgs_error_def decimal_digits decimal_two main_def
      log_Fatal_def dialogue_def index_def)

text \<open>
  C10: image recognition, audio generation and code generation read \<open>Choices[0]\<close> of the
  response without a check. Once the handler reaches the call it issues one completion
  request; if the call fails the run logs the error and exits; if it succeeds with an
  empty choice list the run ends in a panic on index 0 of a slice of length 0; with at
  least one choice it does not panic: it returns, or exits with status 1 when audio
  generation may not write its output file.
\<close>

theorem first_choice_unchecked:
  assumes "c = ImageRecognition \<or> c = AudioGeneration \<or> c = CodeGeneration"
    and "getClient openaiKey w = Inr key" "valid_args c args" "reaches_call c args w"
  shows "\<exists>req. issued w (snd (main S c openaiKey args w)) = [(key, Completion req)] \<and>
           (case CreateCompletion S key req of
              Inl err \<Rightarrow> main S c openaiKey args w = log_Fatal err (send key (Completion req) w)
            | Inr result \<Rightarrow>
               (Choices result = [] \<longrightarrow>
                  main S c openaiKey args w = (IndexOutOfRange 0 0, send key (Completion req) w)) \<and>
               (Choices result \<noteq> [] \<longrightarrow>
                  fst (main S c openaiKey args w) =
                    (if c = AudioGeneration \<and> write_denied w (args ! 1) \<noteq> None then Exit1
                     else Returned)))"
  using assms
  by (elim disjE)
     (auto simp: main_def valid_args_def handler_defs effect_defs Let_def issued_def
           split: sum.splits option.splits prod.splits if_splits)

theorem first_choice_unchecked_witness:
  "fst (main (answering_choices []) ImageRecognition ''sk-test'' [''abc.txt''] sample_world) =
     IndexOutOfRange 0 0
   \<and> fst (main (answering_choices []) AudioGeneration ''sk-test'' [''hello'', ''out.mp3'']
          sample_world) = IndexOutOfRange 0 0
   \<and> fst (main (answering_choices []) CodeGeneration ''sk-test'' [''sort a list'']
          sample_world) = IndexOutOfRange 0 0
   \<and> fst (main (answering_choices [''x = 1'']) CodeGeneration ''sk-test'' [''sort a list'']
          sample_world) = Returned"
  using first_choice_unchecked [of ImageRecognition "''sk-test''" sample_world "''sk-test''"
      "[''abc.txt'']" "answering_choices []"]
    first_choice_unchecked [of AudioGeneration "''sk-test''" sample_world "''sk-test''"
      "[''hello'', ''out.mp3'']" "answering_choices []"]
    first_choice_unchecked [of CodeGeneration "''sk-test''" sample_world "''sk-test''"
      "[''sort a list'']" "answering_choices []"]
    first_choice_unchecked [of CodeGeneration "''sk-test''" sample_world "''sk-test''"
      "[''sort a list'']" "answering_choices [''x = 1'']"]
  by (simp add: main_def imageRecognition_def audioGeneration_def codeGeneration_def
      effect_defs sample_getClient)

end
